theory Spec2Isabelle
  imports Complex_Main
begin

section \<open>Python exceptions\<close>

text \<open>
  The source distinguishes exception classes in three places: \<^verbatim>\<open>except Exception\<close>
  (which does not catch \<^verbatim>\<open>KeyboardInterrupt\<close> and \<^verbatim>\<open>SystemExit\<close>, both derived from
  \<^verbatim>\<open>BaseException\<close> only), \<^verbatim>\<open>except asyncio.TimeoutError\<close>, and the tuple
  \<^verbatim>\<open>(KeyboardInterrupt, SystemExit, MemoryError)\<close> of \<^verbatim>\<open>should_retry\<close>. An exception is
  its class together with the text \<^verbatim>\<open>str(e)\<close>. Floats are modelled as reals: rounding
  is not part of the model, the range of the floats is.
\<close>

datatype exc_class =
  KeyboardInterrupt | SystemExit | MemoryError | AsyncioTimeoutError
  | ZeroDivisionError | OverflowError | OtherException

datatype exn = Exn (cls: exc_class) (str: string)

definition is_Exception :: "exn \<Rightarrow> bool" where
  "is_Exception e \<longleftrightarrow> cls e \<noteq> KeyboardInterrupt \<and> cls e \<noteq> SystemExit"

section \<open>Retry strategy: data model (core/retry\_strategy.py)\<close>

datatype RetryPolicy =
  FIXED_DELAY | EXPONENTIAL_BACKOFF | LINEAR_BACKOFF | RANDOM_JITTER | CUSTOM

datatype RetryResult = SUCCESS | FAILED_ALL_ATTEMPTS | ABORTED | TIMEOUT

text \<open>
  \<^verbatim>\<open>RetryAttempt\<close> without its wall-clock fields \<^verbatim>\<open>start_time\<close> and \<^verbatim>\<open>end_time\<close>
  and without \<^verbatim>\<open>metadata\<close>, which the executor never fills.
\<close>

record RetryAttempt =
  attempt_number :: int
  success :: bool
  error :: "string option"
  delay_before :: real

record RetryConfiguration =
  max_attempts :: int
  policy :: RetryPolicy
  base_delay :: real
  max_delay :: real
  backoff_multiplier :: real
  jitter_factor :: real
  timeout :: "real option"
  custom_delay_func :: "(int \<Rightarrow> exn option \<Rightarrow> exn + real) option"

text \<open>
  \<^verbatim>\<open>__post_init__\<close>: the three checks, in the source's order, each raising
  \<^verbatim>\<open>ValueError\<close> with the given text.
\<close>

definition post_init :: "RetryConfiguration \<Rightarrow> string + RetryConfiguration" where
  "post_init c =
     (if max_attempts c < 1 then Inl ''max_attempts must be at least 1''
      else if base_delay c < 0 then Inl ''base_delay must be non-negative''
      else if max_delay c < base_delay c then Inl ''max_delay must be >= base_delay''
      else Inr c)"

text \<open>
  The texts of \<^verbatim>\<open>final_error\<close>. Three of them are fixed Japanese literals of the
  source, kept here as constructors: the abort text of line 253, the timeout text of
  line 265 (formatted with \<^verbatim>\<open>config.timeout\<close>), the unknown-error text of line 338, and
  the unexpected-error prefix of line 351 followed by \<^verbatim>\<open>str(e)\<close>.
\<close>

datatype message =
  Msg string | Msg_aborted | Msg_timeout real | Msg_unknown | Msg_unexpected string

record 'a RetryExecutionResult =
  result :: RetryResult
  result_value :: "'a option"
  attempts :: "RetryAttempt list"
  final_error :: "message option"
  configuration :: "RetryConfiguration option"

section \<open>DelayCalculator\<close>

text \<open>The largest finite float, \<^verbatim>\<open>sys.float_info.max\<close>.\<close>

definition float_max :: real where
  "float_max = (2 ^ 53 - 1) * 2 ^ 971"

text \<open>
  Python's \<^verbatim>\<open>x ** k\<close> for a float \<^verbatim>\<open>x\<close> and an int \<^verbatim>\<open>k\<close>: a negative exponent
  inverts, and raises \<^verbatim>\<open>ZeroDivisionError\<close> on a zero base; a result beyond the range of
  the floats raises \<^verbatim>\<open>OverflowError\<close>, whose text is that of the C library's range
  error. The model takes the exact power and reports the overflow when it lies beyond
  \<open>float_max\<close>.
\<close>

definition float_pow :: "real \<Rightarrow> int \<Rightarrow> exn + real" where
  "float_pow x k =
     (if k < 0 \<and> x = 0
      then Inl (Exn ZeroDivisionError ''0.0 cannot be raised to a negative power'')
      else
        (let p = (if 0 \<le> k then x ^ nat k else 1 / x ^ nat (- k))
         in if float_max < \<bar>p\<bar>
            then Inl (Exn OverflowError ''(34, 'Numerical result out of range')'')
            else Inr p))"

text \<open>
  \<^verbatim>\<open>calculate_delay(attempt_number, config, last_error)\<close>, with \<open>n\<close> for
  \<^verbatim>\<open>attempt_number\<close>. The extra argument \<open>r\<close> is
  the value that \<^verbatim>\<open>random.random()\<close> returns in the RANDOM\_JITTER branch. The result is
  \<open>Inl e\<close> when an exception leaves the function: the custom function raising outside
  class \<^verbatim>\<open>Exception\<close>, or the power raising.
\<close>

definition calculate_delay ::
  "int \<Rightarrow> RetryConfiguration \<Rightarrow> exn option \<Rightarrow> real \<Rightarrow> exn + real" where
  "calculate_delay n config last_error r =
     (case (if policy config = CUSTOM then custom_delay_func config else None) of
        Some f \<Rightarrow>
          (case f n last_error of
             Inr d \<Rightarrow> Inr d
           | Inl e \<Rightarrow> if is_Exception e then Inr (base_delay config) else Inl e)
      | None \<Rightarrow>
          (case
             (case policy config of
                FIXED_DELAY \<Rightarrow> Inr (base_delay config)
              | EXPONENTIAL_BACKOFF \<Rightarrow>
                  (case float_pow (backoff_multiplier config) (n - 1) of
                     Inl e \<Rightarrow> Inl e
                   | Inr p \<Rightarrow> Inr (base_delay config * p))
              | LINEAR_BACKOFF \<Rightarrow> Inr (base_delay config * of_int n)
              | RANDOM_JITTER \<Rightarrow>
                  (case float_pow (backoff_multiplier config) (n - 1) of
                     Inl e \<Rightarrow> Inl e
                   | Inr p \<Rightarrow>
                       (let base = base_delay config * p;
                            jitter = base * jitter_factor config * (2 * r - 1)
                        in Inr (base + jitter)))
              | CUSTOM \<Rightarrow> Inr (base_delay config))
           of
             Inl e \<Rightarrow> Inl e
           | Inr delay \<Rightarrow> Inr (max 0 (min delay (max_delay config)))))"

section \<open>RetryConditionChecker\<close>

text \<open>
  \<^verbatim>\<open>should_retry(attempt_number, config, error, error_checker)\<close>. A checker is a
  function that returns a bool or raises; what it raises outside class
  \<^verbatim>\<open>Exception\<close> leaves \<^verbatim>\<open>should_retry\<close>.
\<close>

definition should_retry ::
  "int \<Rightarrow> RetryConfiguration \<Rightarrow> exn \<Rightarrow> (exn \<Rightarrow> exn + bool) option \<Rightarrow> exn + bool" where
  "should_retry n config err error_checker =
     (if n \<ge> max_attempts config then Inr False
      else
        (case error_checker of
           Some f \<Rightarrow>
             (case f err of
                Inr b \<Rightarrow> Inr b
              | Inl e \<Rightarrow> if is_Exception e then Inr False else Inl e)
         | None \<Rightarrow>
             Inr (cls err \<noteq> KeyboardInterrupt \<and> cls err \<noteq> SystemExit
                  \<and> cls err \<noteq> MemoryError)))"

section \<open>RetryExecutor\<close>

text \<open>The counters of \<^verbatim>\<open>self.stats\<close>.\<close>

record stats =
  total_executions :: int
  successful_executions :: int
  failed_executions :: int
  total_attempts :: int
  aborted_executions :: int

text \<open>
  How one pass through the body of the \<^verbatim>\<open>for\<close> loop ends: a \<^verbatim>\<open>return\<close>, an
  exception leaving the loop (with the attempt list as it is then), a \<^verbatim>\<open>break\<close> or
  the end of the range, or the next iteration; the last two carry the updated
  \<^verbatim>\<open>attempts\<close> and \<^verbatim>\<open>last_error\<close>.
\<close>

datatype 'a step =
  Return "'a RetryExecutionResult"
  | Raise exn "RetryAttempt list"
  | Break "RetryAttempt list" "exn option"
  | Continue "RetryAttempt list" "exn option"

text \<open>
  The four places where the loop calls the logger, which the caller may supply and whose
  filters and handlers may raise: \<^verbatim>\<open>logger.debug\<close> before the sleep (line 274),
  \<^verbatim>\<open>logger.info\<close> after a success (line 301), \<^verbatim>\<open>logger.warning\<close> after a failure
  (line 318) and \<^verbatim>\<open>logger.info\<close> before the \<^verbatim>\<open>break\<close> (line 327); lines 395, 419,
  436 and 445 in the synchronous variant.
\<close>

datatype log_site = Debug_wait | Info_success | Warning_failed | Info_not_retryable

text \<open>
  The environment of a run is given by oracles indexed by the attempt number, since
  each of these is consulted at most once per iteration:
  \<^item> \<open>operation n\<close>: what the call \<^verbatim>\<open>operation()\<close> of attempt \<open>n\<close> does (raise or return);
  \<^item> \<open>abort_checker\<close>, when supplied: what \<^verbatim>\<open>abort_checker()\<close> does at the start of
    iteration \<open>n\<close>;
  \<^item> \<open>elapsed n\<close>: the seconds since \<^verbatim>\<open>start_time\<close> read at the timeout check of
    iteration \<open>n\<close>;
  \<^item> \<open>rnd n\<close>: the value of \<^verbatim>\<open>random.random()\<close> drawn for the delay before attempt \<open>n\<close>;
  \<^item> \<open>lg site n\<close>: what the logger call at \<open>site\<close> does in iteration \<open>n\<close>, \<open>None\<close> when
    it returns.
  Sleeping changes nothing that the model keeps. \<^verbatim>\<open>total_duration\<close> is wall-clock time
  and is not part of the result record.
\<close>

text \<open>
  The handler \<^verbatim>\<open>except Exception as e\<close> of the inner \<^verbatim>\<open>try\<close> (lines 311 to 328), from
  the call of \<^verbatim>\<open>logger.warning\<close> on; \<open>atts'\<close> is the attempt list after the handler has
  appended the attempt. An exception raised inside the handler leaves the loop.
\<close>

definition after_failure ::
  "(log_site \<Rightarrow> int \<Rightarrow> exn option) \<Rightarrow> RetryConfiguration \<Rightarrow> (exn \<Rightarrow> exn + bool) option \<Rightarrow>
   int \<Rightarrow> RetryAttempt list \<Rightarrow> exn \<Rightarrow> stats \<Rightarrow> 'a step \<times> stats" where
  "after_failure lg config error_checker attempt_num atts' e st =
     (case lg Warning_failed attempt_num of
        Some e2 \<Rightarrow> (Raise e2 atts', st)
      | None \<Rightarrow>
          if attempt_num < max_attempts config
          then (case should_retry attempt_num config e error_checker of
                  Inl e' \<Rightarrow> (Raise e' atts', st)
                | Inr True \<Rightarrow> (Continue atts' (Some e), st)
                | Inr False \<Rightarrow>
                    (case lg Info_not_retryable attempt_num of
                       Some e3 \<Rightarrow> (Raise e3 atts', st)
                     | None \<Rightarrow> (Break atts' (Some e), st)))
          else (Continue atts' (Some e), st))"

text \<open>
  The inner \<^verbatim>\<open>try\<close> (lines 284 to 328) for the attempt object \<open>attempt\<close>. The call of
  \<^verbatim>\<open>logger.info\<close> after a success stands inside the \<^verbatim>\<open>try\<close>, after the attempt has been
  appended: when it raises an exception of class \<^verbatim>\<open>Exception\<close>, the handler sets
  \<^verbatim>\<open>attempt.error\<close> on that same object and appends it a second time, so the list ends
  with two entries for it, both with \<open>success = True\<close> and the error text.
\<close>

definition run_attempt ::
  "(int \<Rightarrow> exn + 'a) \<Rightarrow> (log_site \<Rightarrow> int \<Rightarrow> exn option) \<Rightarrow> RetryConfiguration \<Rightarrow>
   (exn \<Rightarrow> exn + bool) option \<Rightarrow> int \<Rightarrow> RetryAttempt list \<Rightarrow> RetryAttempt \<Rightarrow> stats \<Rightarrow>
   'a step \<times> stats" where
  "run_attempt operation lg config error_checker attempt_num atts attempt st =
     (let st1 = st\<lparr>total_attempts := total_attempts st + 1\<rparr>
      in case operation attempt_num of
           Inr v \<Rightarrow>
             (let succeeded = attempt\<lparr>success := True\<rparr>;
                  st2 = st1\<lparr>successful_executions := successful_executions st1 + 1\<rparr>
              in case lg Info_success attempt_num of
                   None \<Rightarrow>
                     (Return \<lparr>result = SUCCESS, result_value = Some v,
                              attempts = atts @ [succeeded],
                              final_error = None, configuration = Some config\<rparr>, st2)
                 | Some e \<Rightarrow>
                     if \<not> is_Exception e then (Raise e (atts @ [succeeded]), st2)
                     else after_failure lg config error_checker attempt_num
                            (atts @ [succeeded\<lparr>error := Some (str e)\<rparr>,
                                     succeeded\<lparr>error := Some (str e)\<rparr>]) e st2)
         | Inl e \<Rightarrow>
             if \<not> is_Exception e then (Raise e atts, st1)
             else after_failure lg config error_checker attempt_num
                    (atts @ [attempt\<lparr>error := Some (str e)\<rparr>]) e st1)"

text \<open>The body of the loop of \<^verbatim>\<open>execute_with_retry\<close> (lines 246 to 328).\<close>

definition attempt_body ::
  "(int \<Rightarrow> exn + 'a) \<Rightarrow> RetryConfiguration \<Rightarrow> (exn \<Rightarrow> exn + bool) option \<Rightarrow>
   (int \<Rightarrow> exn + bool) option \<Rightarrow> (int \<Rightarrow> real) \<Rightarrow> (int \<Rightarrow> real) \<Rightarrow>
   (log_site \<Rightarrow> int \<Rightarrow> exn option) \<Rightarrow>
   int \<Rightarrow> RetryAttempt list \<Rightarrow> exn option \<Rightarrow> stats \<Rightarrow> 'a step \<times> stats" where
  "attempt_body operation config error_checker abort_checker elapsed rnd lg
       attempt_num atts last_error st =
     (case (case abort_checker of None \<Rightarrow> Inr False | Some f \<Rightarrow> f attempt_num) of
        Inl e \<Rightarrow> (Raise e atts, st)
      | Inr True \<Rightarrow>
          (Return \<lparr>result = ABORTED, result_value = None, attempts = atts,
                   final_error = Some Msg_aborted, configuration = Some config\<rparr>,
           st\<lparr>aborted_executions := aborted_executions st + 1\<rparr>)
      | Inr False \<Rightarrow>
          if (case timeout config of
                None \<Rightarrow> False
              | Some t \<Rightarrow> t \<noteq> 0 \<and> elapsed attempt_num \<ge> t)
          then (Return \<lparr>result = TIMEOUT, result_value = None, attempts = atts,
                        final_error = Some (Msg_timeout (the (timeout config))),
                        configuration = Some config\<rparr>, st)
          else
            (case (if attempt_num > 1
                   then calculate_delay (attempt_num - 1) config last_error (rnd attempt_num)
                   else Inr 0) of
               Inl e \<Rightarrow> (Raise e atts, st)
             | Inr delay \<Rightarrow>
                 (case (if attempt_num > 1 \<and> delay > 0 then lg Debug_wait attempt_num
                        else None) of
                    Some e \<Rightarrow> (Raise e atts, st)
                  | None \<Rightarrow>
                      run_attempt operation lg config error_checker attempt_num atts
                        \<lparr>attempt_number = attempt_num, success = False,
                         error = None, delay_before = delay\<rparr> st)))"

text \<open>
  The \<^verbatim>\<open>for attempt_num in range(1, config.max_attempts + 1)\<close> loop, over the list of
  the attempt numbers still to run.
\<close>

fun retry_loop ::
  "(int \<Rightarrow> exn + 'a) \<Rightarrow> RetryConfiguration \<Rightarrow> (exn \<Rightarrow> exn + bool) option \<Rightarrow>
   (int \<Rightarrow> exn + bool) option \<Rightarrow> (int \<Rightarrow> real) \<Rightarrow> (int \<Rightarrow> real) \<Rightarrow>
   (log_site \<Rightarrow> int \<Rightarrow> exn option) \<Rightarrow>
   int list \<Rightarrow> RetryAttempt list \<Rightarrow> exn option \<Rightarrow> stats \<Rightarrow> 'a step \<times> stats" where
  "retry_loop operation config error_checker abort_checker elapsed rnd lg [] atts last_error st =
     (Break atts last_error, st)"
| "retry_loop operation config error_checker abort_checker elapsed rnd lg (n # ns)
       atts last_error st =
     (case attempt_body operation config error_checker abort_checker elapsed rnd lg
             n atts last_error st of
        (Continue atts' last_error', st') \<Rightarrow>
          retry_loop operation config error_checker abort_checker elapsed rnd lg ns
            atts' last_error' st'
      | (s, st') \<Rightarrow> (s, st'))"

text \<open>
  What follows the loop, and the outer \<^verbatim>\<open>except Exception\<close>. \<open>Inl e\<close> is an exception
  that leaves \<^verbatim>\<open>execute_with_retry\<close>. The loop never ends in \<open>Continue\<close>; that case
  is there to make the function total and is treated as the end of the range.
\<close>

definition finish ::
  "RetryConfiguration \<Rightarrow> 'a step \<times> stats \<Rightarrow> (exn + 'a RetryExecutionResult) \<times> stats" where
  "finish config out =
     (case out of
        (Return r, st) \<Rightarrow> (Inr r, st)
      | (Raise e atts, st) \<Rightarrow>
          if is_Exception e
          then (Inr \<lparr>result = FAILED_ALL_ATTEMPTS, result_value = None, attempts = atts,
                     final_error = Some (Msg_unexpected (str e)),
                     configuration = Some config\<rparr>,
                st\<lparr>failed_executions := failed_executions st + 1\<rparr>)
          else (Inl e, st)
      | (Break atts last_error, st) \<Rightarrow>
          (Inr \<lparr>result = FAILED_ALL_ATTEMPTS, result_value = None, attempts = atts,
                final_error = Some (case last_error of
                                      Some e \<Rightarrow> Msg (str e) | None \<Rightarrow> Msg_unknown),
                configuration = Some config\<rparr>,
           st\<lparr>failed_executions := failed_executions st + 1\<rparr>)
      | (Continue atts last_error, st) \<Rightarrow>
          (Inr \<lparr>result = FAILED_ALL_ATTEMPTS, result_value = None, attempts = atts,
                final_error = Some (case last_error of
                                      Some e \<Rightarrow> Msg (str e) | None \<Rightarrow> Msg_unknown),
                configuration = Some config\<rparr>,
           st\<lparr>failed_executions := failed_executions st + 1\<rparr>))"

definition execute_with_retry ::
  "(int \<Rightarrow> exn + 'a) \<Rightarrow> RetryConfiguration \<Rightarrow> (exn \<Rightarrow> exn + bool) option \<Rightarrow>
   (int \<Rightarrow> exn + bool) option \<Rightarrow> (int \<Rightarrow> real) \<Rightarrow> (int \<Rightarrow> real) \<Rightarrow>
   (log_site \<Rightarrow> int \<Rightarrow> exn option) \<Rightarrow> stats \<Rightarrow>
   (exn + 'a RetryExecutionResult) \<times> stats" where
  "execute_with_retry operation config error_checker abort_checker elapsed rnd lg st =
     finish config
       (retry_loop operation config error_checker abort_checker elapsed rnd lg
          [1 .. max_attempts config] [] None
          (st\<lparr>total_executions := total_executions st + 1\<rparr>))"

subsection \<open>The synchronous variant\<close>

text \<open>
  \<^verbatim>\<open>execute_with_retry_sync(operation, config, error_checker)\<close> has no
  \<^verbatim>\<open>abort_checker\<close> parameter and its loop body starts at the timeout check. Its inner
  \<^verbatim>\<open>try\<close> and handler (lines 405 to 446) are those of the asynchronous variant, the
  coroutine test apart.
\<close>

definition attempt_body_sync ::
  "(int \<Rightarrow> exn + 'a) \<Rightarrow> RetryConfiguration \<Rightarrow> (exn \<Rightarrow> exn + bool) option \<Rightarrow>
   (int \<Rightarrow> real) \<Rightarrow> (int \<Rightarrow> real) \<Rightarrow> (log_site \<Rightarrow> int \<Rightarrow> exn option) \<Rightarrow>
   int \<Rightarrow> RetryAttempt list \<Rightarrow> exn option \<Rightarrow> stats \<Rightarrow> 'a step \<times> stats" where
  "attempt_body_sync operation config error_checker elapsed rnd lg
       attempt_num atts last_error st =
     (if (case timeout config of
            None \<Rightarrow> False
          | Some t \<Rightarrow> t \<noteq> 0 \<and> elapsed attempt_num \<ge> t)
      then (Return \<lparr>result = TIMEOUT, result_value = None, attempts = atts,
                    final_error = Some (Msg_timeout (the (timeout config))),
                    configuration = Some config\<rparr>, st)
      else
        (case (if attempt_num > 1
               then calculate_delay (attempt_num - 1) config last_error (rnd attempt_num)
               else Inr 0) of
           Inl e \<Rightarrow> (Raise e atts, st)
         | Inr delay \<Rightarrow>
             (case (if attempt_num > 1 \<and> delay > 0 then lg Debug_wait attempt_num
                    else None) of
                Some e \<Rightarrow> (Raise e atts, st)
              | None \<Rightarrow>
                  run_attempt operation lg config error_checker attempt_num atts
                    \<lparr>attempt_number = attempt_num, success = False,
                     error = None, delay_before = delay\<rparr> st)))"

fun retry_loop_sync ::
  "(int \<Rightarrow> exn + 'a) \<Rightarrow> RetryConfiguration \<Rightarrow> (exn \<Rightarrow> exn + bool) option \<Rightarrow>
   (int \<Rightarrow> real) \<Rightarrow> (int \<Rightarrow> real) \<Rightarrow> (log_site \<Rightarrow> int \<Rightarrow> exn option) \<Rightarrow>
   int list \<Rightarrow> RetryAttempt list \<Rightarrow> exn option \<Rightarrow> stats \<Rightarrow> 'a step \<times> stats" where
  "retry_loop_sync operation config error_checker elapsed rnd lg [] atts last_error st =
     (Break atts last_error, st)"
| "retry_loop_sync operation config error_checker elapsed rnd lg (n # ns) atts last_error st =
     (case attempt_body_sync operation config error_checker elapsed rnd lg
             n atts last_error st of
        (Continue atts' last_error', st') \<Rightarrow>
          retry_loop_sync operation config error_checker elapsed rnd lg ns
            atts' last_error' st'
      | (s, st') \<Rightarrow> (s, st'))"

definition execute_with_retry_sync ::
  "(int \<Rightarrow> exn + 'a) \<Rightarrow> RetryConfiguration \<Rightarrow> (exn \<Rightarrow> exn + bool) option \<Rightarrow>
   (int \<Rightarrow> real) \<Rightarrow> (int \<Rightarrow> real) \<Rightarrow> (log_site \<Rightarrow> int \<Rightarrow> exn option) \<Rightarrow> stats \<Rightarrow>
   (exn + 'a RetryExecutionResult) \<times> stats" where
  "execute_with_retry_sync operation config error_checker elapsed rnd lg st =
     finish config
       (retry_loop_sync operation config error_checker elapsed rnd lg
          [1 .. max_attempts config] [] None
          (st\<lparr>total_executions := total_executions st + 1\<rparr>))"

section \<open>Process engine (core/process\_engine.py)\<close>

datatype ProcessState = PENDING | RUNNING | COMPLETED | FAILED | TERMINATED

text \<open>
  A process handle, as the oracle of what each call on it does. The engine and the
  terminator touch the handle at fixed places, once each, so every place has its own
  field; \<open>None\<close> in an outcome field means that the call returned normally.
  \<^item> \<open>returncode\<close>: \<^verbatim>\<open>process.returncode\<close> on entry to \<^verbatim>\<open>terminate_gracefully\<close>;
  \<^item> \<open>terminate_outcome\<close>, \<open>kill_outcome\<close>: \<^verbatim>\<open>process.terminate()\<close>, \<^verbatim>\<open>process.kill()\<close>;
  \<^item> \<open>wait_term_outcome\<close>, \<open>wait_kill_outcome\<close>: the two
    \<^verbatim>\<open>asyncio.wait_for(process.wait(), ...)\<close> of the terminator; a timeout is the
    exception of class \<open>AsyncioTimeoutError\<close>;
  \<^item> \<open>os_kill_outcome\<close>: \<^verbatim>\<open>os.kill(pid, SIGKILL)\<close>, or \<^verbatim>\<open>subprocess.run\<close> of
    \<^verbatim>\<open>taskkill\<close> on Windows;
  \<^item> \<open>wait_outcome\<close>: the engine's own wait for the exit (with or without
    \<^verbatim>\<open>request.timeout\<close>);
  \<^item> \<open>stdout_stream\<close>, \<open>stderr_stream\<close>: \<open>None\<close> when the stream attribute is
    missing, else what \<^verbatim>\<open>read()\<close> followed by \<^verbatim>\<open>decode()\<close> does;
  \<^item> \<open>final_returncode\<close>: \<^verbatim>\<open>process.returncode\<close> when the result is built.
\<close>

record process =
  pid :: int
  returncode :: "int option"
  terminate_outcome :: "exn option"
  wait_term_outcome :: "exn option"
  kill_outcome :: "exn option"
  wait_kill_outcome :: "exn option"
  os_kill_outcome :: "exn option"
  wait_outcome :: "exn option"
  stdout_stream :: "(exn + string) option"
  stderr_stream :: "(exn + string) option"
  final_returncode :: "int option"

subsection \<open>ProcessTerminator\<close>

text \<open>The calls that \<^verbatim>\<open>terminate_gracefully\<close> makes to stop the process, in order.\<close>

datatype kill_call = Call_terminate | Call_kill | Call_os_kill

text \<open>The outer \<^verbatim>\<open>except Exception: return False\<close> of \<^verbatim>\<open>terminate_gracefully\<close>.\<close>

definition outer_except :: "exn \<Rightarrow> exn + bool" where
  "outer_except e = (if is_Exception e then Inr False else Inl e)"

text \<open>
  \<^verbatim>\<open>terminate_gracefully(process, timeout_term, timeout_kill)\<close>: the returned bool
  (or the exception that leaves the function) and the calls made. The two timeouts
  only parametrise the waits, whose outcomes are given by the handle. The last step sits
  in a bare \<^verbatim>\<open>except:\<close>, which catches every exception.
\<close>

definition terminate_gracefully :: "process \<Rightarrow> (exn + bool) \<times> kill_call list" where
  "terminate_gracefully p =
     (if returncode p \<noteq> None then (Inr True, [])
      else
        (case terminate_outcome p of
           Some e \<Rightarrow> (outer_except e, [Call_terminate])
         | None \<Rightarrow>
            (case wait_term_outcome p of
               None \<Rightarrow> (Inr True, [Call_terminate])
             | Some e \<Rightarrow>
                (if cls e \<noteq> AsyncioTimeoutError then (outer_except e, [Call_terminate])
                 else
                   (case kill_outcome p of
                      Some e \<Rightarrow> (outer_except e, [Call_terminate, Call_kill])
                    | None \<Rightarrow>
                       (case wait_kill_outcome p of
                          None \<Rightarrow> (Inr True, [Call_terminate, Call_kill])
                        | Some e \<Rightarrow>
                           (if cls e \<noteq> AsyncioTimeoutError
                            then (outer_except e, [Call_terminate, Call_kill])
                            else
                              (case os_kill_outcome p of
                                 None \<Rightarrow>
                                   (Inr True, [Call_terminate, Call_kill, Call_os_kill])
                               | Some e \<Rightarrow>
                                   (Inr False,
                                    [Call_terminate, Call_kill, Call_os_kill])))))))))"

subsection \<open>AsyncProcessEngine\<close>












section \<open>Concrete inputs\<close>

text \<open>\<^verbatim>\<open>RetryConfigurationFactory.create_default()\<close>; the fields it leaves out take the
  defaults of the dataclass.\<close>

definition create_default :: RetryConfiguration where
  "create_default =
     \<lparr>max_attempts = 3, policy = EXPONENTIAL_BACKOFF, base_delay = 1.0, max_delay = 60.0,
      backoff_multiplier = 2.0, jitter_factor = 0.1, timeout = None,
      custom_delay_func = None\<rparr>"

text \<open>The counters as \<^verbatim>\<open>RetryExecutor.__init__\<close> sets them.\<close>

definition initial_stats :: stats where
  "initial_stats =
     \<lparr>total_executions = 0, successful_executions = 0, failed_executions = 0,
      total_attempts = 0, aborted_executions = 0\<rparr>"




text \<open>An operation that fails twice and then returns 42.\<close>

definition flaky :: "int \<Rightarrow> exn + nat" where
  "flaky n = (if n < 3 then Inl (Exn OtherException ''boom'') else Inr 42)"

text \<open>An operation that fails on every call.\<close>

definition always_fails :: "int \<Rightarrow> exn + nat" where
  "always_fails n = Inl (Exn OtherException ''boom'')"

text \<open>An abort checker that is false at the first poll and true from the second on.\<close>

definition abort_from_second :: "int \<Rightarrow> exn + bool" where
  "abort_from_second n = Inr (2 \<le> n)"

text \<open>A logger whose calls all return.\<close>

definition quiet_logger :: "log_site \<Rightarrow> int \<Rightarrow> exn option" where
  "quiet_logger site n = None"

text \<open>
  A logger with a filter that raises on the record of a success, and whose other calls
  return.
\<close>

definition info_raises :: "log_site \<Rightarrow> int \<Rightarrow> exn option" where
  "info_raises site n =
     (if site = Info_success then Some (Exn OtherException ''log'') else None)"

text \<open>An operation that returns 7 on every call.\<close>

definition always_succeeds :: "int \<Rightarrow> exn + nat" where
  "always_succeeds n = Inr 7"

text \<open>Custom delay functions that ignore their arguments.\<close>

definition constant_delay :: "real \<Rightarrow> int \<Rightarrow> exn option \<Rightarrow> exn + real" where
  "constant_delay d n last_error = Inr d"

section \<open>Properties of DelayCalculator\<close>

text \<open>
  Every branch that reaches the end of \<^verbatim>\<open>calculate_delay\<close> is clamped: when the
  custom branch is not taken and \<open>max_delay\<close> is not negative, a returned delay lies in
  \<open>[0, max_delay]\<close>, whatever the policy, the attempt number and the random draw.
\<close>

lemma calculate_delay_clamped:
  assumes "policy c \<noteq> CUSTOM \<or> custom_delay_func c = None"
    and "0 \<le> max_delay c"
    and "calculate_delay n c e r = Inr d"
  shows "0 \<le> d \<and> d \<le> max_delay c"
  using assms
  by (auto simp: calculate_delay_def
      split: sum.splits RetryPolicy.splits if_splits option.splits)

lemma post_init_bounds:
  assumes "post_init c = Inr c"
  shows "1 \<le> max_attempts c" and "0 \<le> base_delay c" and "base_delay c \<le> max_delay c"
  using assms by (auto simp: post_init_def split: if_splits)

text \<open>The range of the floats, for the powers that the calculator takes.\<close>

lemma float_max_ge: "1000 \<le> float_max"
proof -
  have "(2::real) ^ 10 \<le> 2 ^ 971" by (rule power_increasing) simp_all
  moreover have "(1::real) \<le> 2 ^ 53 - 1" by simp
  ultimately have "1 * (2::real) ^ 10 \<le> (2 ^ 53 - 1) * 2 ^ 971"
    by (intro mult_mono) simp_all
  then show ?thesis by (simp add: float_max_def)
qed

lemma float_max_lt: "float_max < 2 ^ 1024"
proof -
  have "(2::real) ^ 1024 = 2 ^ 53 * 2 ^ 971" by (simp add: power_add[symmetric])
  moreover have "(0::real) < 2 ^ 971" by simp
  ultimately show ?thesis by (simp add: float_max_def algebra_simps)
qed

lemma float_pow_in_range:
  assumes "0 \<le> k" and "\<bar>x ^ nat k\<bar> \<le> float_max"
  shows "float_pow x k = Inr (x ^ nat k)"
  using assms by (simp add: float_pow_def Let_def)

lemma float_pow_small:
  assumes "0 \<le> k" and "\<bar>x ^ nat k\<bar> \<le> 1000"
  shows "float_pow x k = Inr (x ^ nat k)"
  using assms float_max_ge by (intro float_pow_in_range) auto

lemma float_pow_overflow:
  "float_pow 2 1024 = Inl (Exn OverflowError ''(34, 'Numerical result out of range')'')"
  using float_max_lt by (simp add: float_pow_def Let_def)

text \<open>
  C1. The claim: for every configuration and attempt number the returned delay lies in
  \<open>[0, max_delay]\<close>, in the Custom branch too. The custom branch returns from inside its
  \<^verbatim>\<open>try\<close>, before the two clamping statements that every other branch runs through:
  with the default configuration switched to the Custom policy and a delay function
  that returns 100, the configuration passes \<^verbatim>\<open>__post_init__\<close>, \<open>max_delay\<close> is 60,
  and \<^verbatim>\<open>calculate_delay\<close> returns 100.
\<close>

theorem calculate_delay_custom_above_max_delay:
  "post_init (create_default\<lparr>policy := CUSTOM,
                             custom_delay_func := Some (constant_delay 100)\<rparr>)
     = Inr (create_default\<lparr>policy := CUSTOM,
                            custom_delay_func := Some (constant_delay 100)\<rparr>)
   \<and> max_delay (create_default\<lparr>policy := CUSTOM,
                                custom_delay_func := Some (constant_delay 100)\<rparr>) = 60
   \<and> calculate_delay 1 (create_default\<lparr>policy := CUSTOM,
                                        custom_delay_func := Some (constant_delay 100)\<rparr>)
        None 0 = Inr 100"
  by (simp add: calculate_delay_def create_default_def post_init_def constant_delay_def)

text \<open>
  C7. The claim: the returned delay is never negative, for every policy, Custom
  included. The RANDOM\_JITTER branch is clamped (\<open>calculate_delay_clamped\<close>), but the
  custom branch returns what the delay function returns: with a delay function that
  returns \<open>-5\<close>, \<^verbatim>\<open>calculate_delay\<close> returns \<open>-5\<close>.
\<close>

theorem calculate_delay_custom_negative:
  "calculate_delay 1 (create_default\<lparr>policy := CUSTOM,
                                      custom_delay_func := Some (constant_delay (- 5))\<rparr>)
        None 0 = Inr (- 5)"
  by (simp add: calculate_delay_def create_default_def constant_delay_def)

text \<open>
  C3, as the claim states it, fails in two ways. Validation does not constrain
  \<open>backoff_multiplier\<close>, and with the multiplier \<open>-2\<close> the second attempt has the
  product \<open>-2\<close>, which the final \<^verbatim>\<open>max(0, delay)\<close> turns into 0, while
  \<open>min(max_delay, base_delay * multiplier^(n-1))\<close> is \<open>-2\<close>. And the power is taken before
  the clamp: with the default configuration and the attempt number 1025 it is \<open>2^1024\<close>,
  beyond the range of the floats, and \<^verbatim>\<open>calculate_delay\<close> raises \<^verbatim>\<open>OverflowError\<close>
  instead of returning \<open>max_delay\<close>.
\<close>

theorem exponential_delay_negative_multiplier_counterexample:
  "post_init (create_default\<lparr>backoff_multiplier := - 2\<rparr>)
     = Inr (create_default\<lparr>backoff_multiplier := - 2\<rparr>)
   \<and> policy (create_default\<lparr>backoff_multiplier := - 2\<rparr>) = EXPONENTIAL_BACKOFF
   \<and> calculate_delay 2 (create_default\<lparr>backoff_multiplier := - 2\<rparr>) None 0 = Inr 0
   \<and> min (max_delay (create_default\<lparr>backoff_multiplier := - 2\<rparr>))
          (base_delay (create_default\<lparr>backoff_multiplier := - 2\<rparr>)
           * backoff_multiplier (create_default\<lparr>backoff_multiplier := - 2\<rparr>) ^ nat (2 - 1))
       = - 2
   \<and> post_init create_default = Inr create_default
   \<and> policy create_default = EXPONENTIAL_BACKOFF
   \<and> calculate_delay 1025 create_default None 0
       = Inl (Exn OverflowError ''(34, 'Numerical result out of range')'')"
  by (simp add: calculate_delay_def create_default_def post_init_def float_pow_small
      float_pow_overflow)

text \<open>
  C3, amended. For every configuration that passes \<^verbatim>\<open>__post_init__\<close> and has the
  policy EXPONENTIAL\_BACKOFF, and every attempt number \<open>n \<ge> 1\<close> for which the power
  \<open>multiplier^(n-1)\<close> lies within the range of the floats, \<^verbatim>\<open>calculate_delay\<close>
  returns \<open>max(0, min(max_delay, base_delay * multiplier^(n-1)))\<close>; this is
  \<open>min(max_delay, base_delay * multiplier^(n-1))\<close> whenever the multiplier is not
  negative; and the delay is monotonically non-decreasing in \<open>n\<close>, within that range,
  whenever the multiplier is at least 1.
\<close>

theorem exponential_backoff_delay:
  assumes "post_init c = Inr c" and "policy c = EXPONENTIAL_BACKOFF" and "1 \<le> n"
    and "\<bar>backoff_multiplier c ^ nat (n - 1)\<bar> \<le> float_max"
  shows "calculate_delay n c e r =
           Inr (max 0 (min (max_delay c) (base_delay c * backoff_multiplier c ^ nat (n - 1))))
       \<and> (0 \<le> backoff_multiplier c \<longrightarrow>
            calculate_delay n c e r =
              Inr (min (max_delay c) (base_delay c * backoff_multiplier c ^ nat (n - 1))))
       \<and> (1 \<le> backoff_multiplier c \<and> n \<le> m
            \<and> \<bar>backoff_multiplier c ^ nat (m - 1)\<bar> \<le> float_max \<longrightarrow>
            (\<exists>d d'. calculate_delay n c e r = Inr d \<and> calculate_delay m c e' r' = Inr d'
                     \<and> d \<le> d'))"
proof -
  note b = post_init_bounds[OF assms(1)]
  have eq: "calculate_delay k c x y =
      Inr (max 0 (min (max_delay c) (base_delay c * backoff_multiplier c ^ nat (k - 1))))"
    if "1 \<le> k" and "\<bar>backoff_multiplier c ^ nat (k - 1)\<bar> \<le> float_max" for k x y
  proof -
    have "float_pow (backoff_multiplier c) (k - 1) = Inr (backoff_multiplier c ^ nat (k - 1))"
      using that by (intro float_pow_in_range) auto
    then show ?thesis
      using assms(2) by (simp add: calculate_delay_def min.commute)
  qed
  note here = eq[OF assms(3) assms(4)]
  have nonneg: "calculate_delay n c e r =
      Inr (min (max_delay c) (base_delay c * backoff_multiplier c ^ nat (n - 1)))"
    if "0 \<le> backoff_multiplier c"
  proof -
    have "0 \<le> base_delay c * backoff_multiplier c ^ nat (n - 1)"
      using that b(2) by simp
    moreover have "0 \<le> max_delay c" using b(2,3) by simp
    ultimately show ?thesis using here by simp
  qed
  have mono: "\<exists>d d'. calculate_delay n c e r = Inr d \<and> calculate_delay m c e' r' = Inr d'
                     \<and> d \<le> d'"
    if m: "1 \<le> backoff_multiplier c" "n \<le> m"
      "\<bar>backoff_multiplier c ^ nat (m - 1)\<bar> \<le> float_max"
  proof -
    have "backoff_multiplier c ^ nat (n - 1) \<le> backoff_multiplier c ^ nat (m - 1)"
      using m(1,2) assms(3) by (intro power_increasing) auto
    then have "base_delay c * backoff_multiplier c ^ nat (n - 1)
        \<le> base_delay c * backoff_multiplier c ^ nat (m - 1)"
      using b(2) by (rule mult_left_mono)
    then have "max 0 (min (max_delay c) (base_delay c * backoff_multiplier c ^ nat (n - 1)))
        \<le> max 0 (min (max_delay c) (base_delay c * backoff_multiplier c ^ nat (m - 1)))"
      by (auto simp: min_def max_def)
    moreover have "1 \<le> m" using m(2) assms(3) by simp
    ultimately show ?thesis using here eq[OF \<open>1 \<le> m\<close> m(3)] by simp
  qed
  from here nonneg mono show ?thesis by blast
qed

theorem exponential_backoff_delay_witness:
  "post_init create_default = Inr create_default
   \<and> policy create_default = EXPONENTIAL_BACKOFF
   \<and> \<bar>backoff_multiplier create_default ^ nat (3 - 1)\<bar> \<le> float_max
   \<and> calculate_delay 3 create_default None 0 = Inr 4
   \<and> (\<exists>d d'. calculate_delay 3 create_default None 0 = Inr d
              \<and> calculate_delay 5 create_default None 0 = Inr d' \<and> d \<le> d')"
proof -
  have v: "post_init create_default = Inr create_default"
    by (simp add: post_init_def create_default_def)
  have p: "policy create_default = EXPONENTIAL_BACKOFF"
    by (simp add: create_default_def)
  have n: "(1::int) \<le> 3" by simp
  have r3: "\<bar>backoff_multiplier create_default ^ nat (3 - 1)\<bar> \<le> float_max"
    using float_max_ge by (simp add: create_default_def)
  have m: "1 \<le> backoff_multiplier create_default \<and> (3::int) \<le> 5
      \<and> \<bar>backoff_multiplier create_default ^ nat (5 - 1)\<bar> \<le> float_max"
    using float_max_ge by (simp add: create_default_def)
  have nn: "0 \<le> backoff_multiplier create_default"
    by (simp add: create_default_def)
  note t = exponential_backoff_delay[OF v p n r3, of None 0 5 None 0]
  from t nn have "calculate_delay 3 create_default None 0 =
      Inr (min (max_delay create_default)
             (base_delay create_default * backoff_multiplier create_default ^ nat (3 - 1)))"
    by blast
  then have four: "calculate_delay 3 create_default None 0 = Inr 4"
    by (simp add: create_default_def)
  from t m have "\<exists>d d'. calculate_delay 3 create_default None 0 = Inr d
              \<and> calculate_delay 5 create_default None 0 = Inr d' \<and> d \<le> d'"
    by blast
  with v p r3 four show ?thesis by blast
qed

section \<open>Properties of RetryConditionChecker\<close>

text \<open>
  C6. \<^verbatim>\<open>should_retry\<close> returns false whenever \<open>attempt_number \<ge> max_attempts\<close>, for
  every error and every checker (supplied or not, whatever it would return or raise),
  and it returns false at any attempt number when a supplied checker returns false for
  the error.
\<close>

theorem should_retry_false:
  "(max_attempts c \<le> n \<longrightarrow> should_retry n c e ec = Inr False)
   \<and> (f e = Inr False \<longrightarrow> should_retry n c e (Some f) = Inr False)"
  by (simp add: should_retry_def)

theorem should_retry_false_witness:
  "max_attempts create_default \<le> 3
   \<and> should_retry 3 create_default (Exn OtherException ''boom'') (Some (\<lambda>e. Inr True))
       = Inr False
   \<and> should_retry 1 create_default (Exn OtherException ''boom'') (Some (\<lambda>e. Inr False))
       = Inr False"
proof -
  have h: "max_attempts create_default \<le> 3" by (simp add: create_default_def)
  have g: "(\<lambda>e::exn. (Inr False :: exn + bool)) (Exn OtherException ''boom'') = Inr False"
    by simp
  from should_retry_false[of create_default 3 "Exn OtherException ''boom''"
        "Some (\<lambda>e. Inr True)"] h
  have a: "should_retry 3 create_default (Exn OtherException ''boom'') (Some (\<lambda>e. Inr True))
       = Inr False"
    by blast
  from should_retry_false[where f = "\<lambda>e. Inr False" and e = "Exn OtherException ''boom''"
        and n = 1 and c = create_default] g
  have b: "should_retry 1 create_default (Exn OtherException ''boom'') (Some (\<lambda>e. Inr False))
       = Inr False"
    by blast
  from h a b show ?thesis by blast
qed

section \<open>Properties of RetryExecutor\<close>

subsection \<open>The shape of the attempt list\<close>

lemma prefix_upto:
  assumes "xs @ ys = [1..k]"
  shows "xs = [1..int (length xs)]"
proof (rule nth_equalityI)
  show "length xs = length [1..int (length xs)]" by simp
next
  fix i assume i: "i < length xs"
  have "length (xs @ ys) = nat k" using assms by simp
  then have le: "1 + int i \<le> k" using i by auto
  have "xs ! i = (xs @ ys) ! i" using i by (simp add: nth_append)
  also have "\<dots> = 1 + int i" using le by (simp add: assms)
  finally show "xs ! i = [1..int (length xs)] ! i" using i by simp
qed

text \<open>The handler keeps the attempt list it was given.\<close>

lemma after_failure_shape:
  assumes "after_failure lg c ec n atts' e st = (s, st')"
  shows "case s of
           Return r \<Rightarrow> False
         | Raise x as \<Rightarrow> as = atts'
         | Break as l \<Rightarrow> as = atts'
         | Continue as l \<Rightarrow> as = atts'"
  using assms
  by (auto simp: after_failure_def split: sum.splits bool.splits if_splits option.splits)

text \<open>
  When the logger call after a success returns, one pass through the loop body either
  returns SUCCESS with one successful attempt appended, or returns another variant with
  the list unchanged, or appends one failed attempt; the appended attempt carries the
  number of the iteration.
\<close>

lemma run_attempt_shape:
  assumes "lg Info_success n = None"
    and "\<not> success a" and "attempt_number a = n"
    and "run_attempt operation lg c ec n atts a st = (s, st')"
  shows "case s of
           Return r \<Rightarrow>
             result r = SUCCESS
             \<and> (\<exists>b. attempts r = atts @ [b] \<and> attempt_number b = n \<and> success b)
         | Raise e as \<Rightarrow>
             as = atts \<or> (\<exists>b. as = atts @ [b] \<and> attempt_number b = n \<and> \<not> success b)
         | Break as l \<Rightarrow> (\<exists>b. as = atts @ [b] \<and> attempt_number b = n \<and> \<not> success b)
         | Continue as l \<Rightarrow> (\<exists>b. as = atts @ [b] \<and> attempt_number b = n \<and> \<not> success b)"
proof (cases "operation n")
  case (Inr v)
  with assms show ?thesis by (auto simp: run_attempt_def Let_def)
next
  case (Inl e)
  show ?thesis
  proof (cases "is_Exception e")
    case False
    with Inl assms show ?thesis by (auto simp: run_attempt_def Let_def)
  next
    case True
    with Inl assms(4)
    have "after_failure lg c ec n (atts @ [a\<lparr>error := Some (str e)\<rparr>]) e
            (st\<lparr>total_attempts := total_attempts st + 1\<rparr>) = (s, st')"
      by (simp add: run_attempt_def Let_def)
    from after_failure_shape[OF this] assms(2,3) show ?thesis
      by (cases s) auto
  qed
qed

lemma attempt_body_cases:
  assumes "attempt_body operation c ec ac el rnd lg n atts le st = (s, st')"
  shows "(\<exists>d. run_attempt operation lg c ec n atts
                \<lparr>attempt_number = n, success = False, error = None, delay_before = d\<rparr> st
              = (s, st'))
       \<or> (\<exists>r. s = Return r \<and> (result r = ABORTED \<or> result r = TIMEOUT) \<and> attempts r = atts)
       \<or> (\<exists>e. s = Raise e atts)"
proof (cases "case ac of None \<Rightarrow> Inr False | Some f \<Rightarrow> f n")
  case (Inl e)
  with assms have "s = Raise e atts" by (simp add: attempt_body_def)
  then show ?thesis by blast
next
  case (Inr b)
  note ab = this
  show ?thesis
  proof (cases b)
    case True
    with ab assms have "\<exists>r. s = Return r \<and> result r = ABORTED \<and> attempts r = atts"
      by (auto simp: attempt_body_def)
    then show ?thesis by blast
  next
    case False
    note nb = this
    show ?thesis
    proof (cases "case timeout c of None \<Rightarrow> False | Some t \<Rightarrow> t \<noteq> 0 \<and> el n \<ge> t")
      case True
      with ab nb assms have "\<exists>r. s = Return r \<and> result r = TIMEOUT \<and> attempts r = atts"
        by (auto simp: attempt_body_def)
      then show ?thesis by blast
    next
      case False
      note nt = this
      show ?thesis
      proof (cases "if n > 1 then calculate_delay (n - 1) c le (rnd n) else Inr 0")
        case (Inl e)
        with ab nb nt assms have "s = Raise e atts" by (simp add: attempt_body_def)
        then show ?thesis by blast
      next
        case (Inr d)
        note dl = this
        show ?thesis
        proof (cases "if n > 1 \<and> d > 0 then lg Debug_wait n else None")
          case (Some e)
          with ab nb nt dl assms have "s = Raise e atts" by (simp add: attempt_body_def)
          then show ?thesis by blast
        next
          case None
          with ab nb nt dl assms
          have "run_attempt operation lg c ec n atts
                  \<lparr>attempt_number = n, success = False, error = None, delay_before = d\<rparr> st
                = (s, st')"
            by (simp add: attempt_body_def)
          then show ?thesis by blast
        qed
      qed
    qed
  qed
qed

lemma attempt_body_shape:
  assumes "lg Info_success n = None"
    and "attempt_body operation c ec ac el rnd lg n atts le st = (s, st')"
  shows "case s of
           Return r \<Rightarrow>
             (result r = SUCCESS
              \<and> (\<exists>a. attempts r = atts @ [a] \<and> attempt_number a = n \<and> success a))
             \<or> (result r \<noteq> SUCCESS \<and> attempts r = atts)
         | Raise e as \<Rightarrow>
             as = atts \<or> (\<exists>a. as = atts @ [a] \<and> attempt_number a = n \<and> \<not> success a)
         | Break as l \<Rightarrow> (\<exists>a. as = atts @ [a] \<and> attempt_number a = n \<and> \<not> success a)
         | Continue as l \<Rightarrow> (\<exists>a. as = atts @ [a] \<and> attempt_number a = n \<and> \<not> success a)"
proof -
  from attempt_body_cases[OF assms(2)]
  consider d where "run_attempt operation lg c ec n atts
                \<lparr>attempt_number = n, success = False, error = None, delay_before = d\<rparr> st
              = (s, st')"
    | r where "s = Return r" "result r = ABORTED \<or> result r = TIMEOUT" "attempts r = atts"
    | e where "s = Raise e atts"
    by blast
  then show ?thesis
  proof cases
    case 1
    from run_attempt_shape[OF assms(1) _ _ this] show ?thesis
      by (cases s) auto
  next
    case 2
    then show ?thesis by auto
  next
    case 3
    then show ?thesis by simp
  qed
qed

text \<open>
  The loop invariant, when the logger calls after a success return: the attempts
  recorded so far all failed, and their numbers followed by the numbers still to run are
  the whole range.
\<close>

lemma retry_loop_shape:
  assumes "\<forall>n. lg Info_success n = None"
    and "\<forall>a\<in>set atts. \<not> success a"
    and "retry_loop operation c ec ac el rnd lg ns atts le st = (s, st')"
  shows "case s of
           Return r \<Rightarrow>
             (result r = SUCCESS \<longleftrightarrow> attempts r \<noteq> [] \<and> success (last (attempts r)))
             \<and> (\<exists>zs. map attempt_number (attempts r) @ zs = map attempt_number atts @ ns)
         | Raise e as \<Rightarrow>
             (\<forall>a\<in>set as. \<not> success a)
             \<and> (\<exists>zs. map attempt_number as @ zs = map attempt_number atts @ ns)
         | Break as l \<Rightarrow>
             (\<forall>a\<in>set as. \<not> success a)
             \<and> (\<exists>zs. map attempt_number as @ zs = map attempt_number atts @ ns)
         | Continue as l \<Rightarrow> False"
  using assms(2,3)
proof (induction ns arbitrary: atts le st)
  case Nil
  then show ?case by auto
next
  case (Cons n ns)
  obtain s1 st1 where b: "attempt_body operation c ec ac el rnd lg n atts le st = (s1, st1)"
    by (cases "attempt_body operation c ec ac el rnd lg n atts le st") auto
  from assms(1) have "lg Info_success n = None" by simp
  note sh = attempt_body_shape[OF this b]
  show ?case
  proof (cases s1)
    case (Return r)
    with b Cons.prems have "s = Return r" by simp
    moreover have "result r = SUCCESS \<longleftrightarrow> attempts r \<noteq> [] \<and> success (last (attempts r))"
      using sh Return Cons.prems(1) by auto
    moreover have "\<exists>zs. map attempt_number (attempts r) @ zs = map attempt_number atts @ n # ns"
      using sh Return by auto
    ultimately show ?thesis by simp
  next
    case (Raise e as)
    with b Cons.prems have "s = Raise e as" by simp
    moreover have "\<forall>a\<in>set as. \<not> success a" using sh Raise Cons.prems(1) by auto
    moreover have "\<exists>zs. map attempt_number as @ zs = map attempt_number atts @ n # ns"
      using sh Raise by auto
    ultimately show ?thesis by simp
  next
    case (Break as l)
    with b Cons.prems have "s = Break as l" by simp
    moreover have "\<forall>a\<in>set as. \<not> success a" using sh Break Cons.prems(1) by auto
    moreover have "\<exists>zs. map attempt_number as @ zs = map attempt_number atts @ n # ns"
      using sh Break by auto
    ultimately show ?thesis by simp
  next
    case (Continue as l)
    with b Cons.prems
    have r: "retry_loop operation c ec ac el rnd lg ns as l st1 = (s, st')"
      by simp
    from sh Continue obtain a where a: "as = atts @ [a]" "attempt_number a = n" "\<not> success a"
      by auto
    have inv: "\<forall>a\<in>set as. \<not> success a" using a Cons.prems(1) by auto
    have eq: "map attempt_number as @ ns = map attempt_number atts @ n # ns" using a by simp
    show ?thesis using Cons.IH[OF inv r] unfolding eq .
  qed
qed

text \<open>
  The invariant of the result holds on every run on which the logger call after a
  success returns (the other three logger calls may raise).
\<close>

lemma result_invariant_when_success_log_returns:
  assumes "\<forall>n. lg Info_success n = None"
    and "fst (execute_with_retry operation c ec ac el rnd lg st) = Inr r"
  shows "(result r = SUCCESS \<longleftrightarrow> attempts r \<noteq> [] \<and> success (last (attempts r)))
       \<and> map attempt_number (attempts r) = [1 .. int (length (attempts r))]"
proof -
  obtain s st1 where l:
    "retry_loop operation c ec ac el rnd lg [1 .. max_attempts c] [] None
       (st\<lparr>total_executions := total_executions st + 1\<rparr>) = (s, st1)"
    by (cases "retry_loop operation c ec ac el rnd lg [1 .. max_attempts c] [] None
          (st\<lparr>total_executions := total_executions st + 1\<rparr>)") auto
  have sh: "case s of
           Return r \<Rightarrow>
             (result r = SUCCESS \<longleftrightarrow> attempts r \<noteq> [] \<and> success (last (attempts r)))
             \<and> (\<exists>zs. map attempt_number (attempts r) @ zs = [1 .. max_attempts c])
         | Raise e as \<Rightarrow>
             (\<forall>a\<in>set as. \<not> success a)
             \<and> (\<exists>zs. map attempt_number as @ zs = [1 .. max_attempts c])
         | Break as l \<Rightarrow>
             (\<forall>a\<in>set as. \<not> success a)
             \<and> (\<exists>zs. map attempt_number as @ zs = [1 .. max_attempts c])
         | Continue as l \<Rightarrow> False"
    using retry_loop_shape[of lg "[]", OF assms(1) _ l] by (cases s) simp_all
  have f: "fst (finish c (s, st1)) = Inr r"
    using assms(2) l by (simp add: execute_with_retry_def)
  have iff: "result r = SUCCESS \<longleftrightarrow> attempts r \<noteq> [] \<and> success (last (attempts r))"
    using f sh by (cases s) (auto simp: finish_def split: if_splits)
  have "\<exists>zs. map attempt_number (attempts r) @ zs = [1 .. max_attempts c]"
    using f sh by (cases s) (auto simp: finish_def split: if_splits)
  then obtain zs where "map attempt_number (attempts r) @ zs = [1 .. max_attempts c]" ..
  from prefix_upto[OF this]
  have "map attempt_number (attempts r) = [1 .. int (length (attempts r))]"
    by simp
  with iff show ?thesis by simp
qed

text \<open>
  C4. The claim: a returned result is SUCCESS if and only if its attempt list is not
  empty and its last attempt has \<open>success = True\<close>, and the attempt numbers are exactly
  \<open>1, ..., k\<close>. The call of \<^verbatim>\<open>logger.info\<close> after a success (line 301) is inside the
  inner \<^verbatim>\<open>try\<close>, after \<^verbatim>\<open>attempts.append(attempt)\<close> (line 296). With a logger that
  raises there, \<open>max_attempts = 1\<close> and an operation that succeeds, the handler appends
  the same attempt again: the result is FAILED\_ALL\_ATTEMPTS, its attempt numbers are
  \<open>1, 1\<close>, and its last attempt has \<open>success = True\<close>.
\<close>

theorem success_log_raises_breaks_invariant:
  "fst (execute_with_retry always_succeeds (create_default\<lparr>max_attempts := 1\<rparr>) None None
          (\<lambda>n. 0) (\<lambda>n. 0) info_raises initial_stats) =
     Inr \<lparr>result = FAILED_ALL_ATTEMPTS, result_value = None,
          attempts =
            [\<lparr>attempt_number = 1, success = True, error = Some ''log'', delay_before = 0\<rparr>,
             \<lparr>attempt_number = 1, success = True, error = Some ''log'', delay_before = 0\<rparr>],
          final_error = Some (Msg ''log''),
          configuration = Some (create_default\<lparr>max_attempts := 1\<rparr>)\<rparr>"
  by (simp add: execute_with_retry_def create_default_def initial_stats_def always_succeeds_def
      info_raises_def attempt_body_def run_attempt_def after_failure_def finish_def
      is_Exception_def Let_def)

subsection \<open>Abort at the second boundary\<close>

lemma body_aborts:
  assumes "ac n = Inr True"
  shows "attempt_body operation c ec (Some ac) el rnd lg n atts le st =
     (Return \<lparr>result = ABORTED, result_value = None, attempts = atts,
              final_error = Some Msg_aborted, configuration = Some c\<rparr>,
      st\<lparr>aborted_executions := aborted_executions st + 1\<rparr>)"
  using assms by (simp add: attempt_body_def)

lemma body_first_fails:
  assumes "1 < max_attempts c"
    and "ac 1 = Inr False"
    and "timeout c = None \<or> timeout c = Some 0 \<or> (\<exists>t. timeout c = Some t \<and> el 1 < t)"
    and "operation 1 = Inl e" and "is_Exception e"
    and "lg Warning_failed 1 = None"
    and "should_retry 1 c e ec = Inr True"
  shows "attempt_body operation c ec (Some ac) el rnd lg 1 [] None st =
     (Continue [\<lparr>attempt_number = 1, success = False, error = Some (str e),
                 delay_before = 0\<rparr>] (Some e),
      st\<lparr>total_attempts := total_attempts st + 1\<rparr>)"
  using assms by (auto simp: attempt_body_def run_attempt_def after_failure_def Let_def)

text \<open>
  C8. Let attempt 1 run and fail and the loop reach the second boundary: there are at
  least two attempts, the abort checker is false at the first boundary, the timeout check
  of the first iteration does not fire, the operation raises an exception, the failure is
  logged and the retry condition lets the loop go on. If the abort checker is then true
  at the boundary before attempt 2, the result is ABORTED with exactly 1 recorded attempt.
  The abort check comes before the timeout check, the delay and the operation of that
  iteration: the conclusion holds for every clock reading, every delay function and
  random draw, and every behaviour of the operation there, and the operation has been
  called once.
\<close>

theorem abort_before_second_attempt:
  assumes "2 \<le> max_attempts c"
    and "ac 1 = Inr False" and "ac 2 = Inr True"
    and "timeout c = None \<or> timeout c = Some 0 \<or> (\<exists>t. timeout c = Some t \<and> el 1 < t)"
    and "operation 1 = Inl e" and "is_Exception e"
    and "lg Warning_failed 1 = None"
    and "should_retry 1 c e ec = Inr True"
  shows "\<exists>r. fst (execute_with_retry operation c ec (Some ac) el rnd lg st) = Inr r
           \<and> result r = ABORTED \<and> length (attempts r) = 1
           \<and> total_attempts (snd (execute_with_retry operation c ec (Some ac) el rnd lg st))
               = total_attempts st + 1"
proof -
  have u: "[1 .. max_attempts c] = 1 # 2 # [3 .. max_attempts c]"
    using assms(1) by (simp add: upto_rec1)
  have m: "1 < max_attempts c" using assms(1) by simp
  have b1: "attempt_body operation c ec (Some ac) el rnd lg 1 [] None st0 =
     (Continue [\<lparr>attempt_number = 1, success = False, error = Some (str e),
                 delay_before = 0\<rparr>] (Some e),
      st0\<lparr>total_attempts := total_attempts st0 + 1\<rparr>)" for st0
    by (intro body_first_fails m assms(2,4-8))
  have b2: "attempt_body operation c ec (Some ac) el rnd lg 2 atts le st0 =
     (Return \<lparr>result = ABORTED, result_value = None, attempts = atts,
              final_error = Some Msg_aborted, configuration = Some c\<rparr>,
      st0\<lparr>aborted_executions := aborted_executions st0 + 1\<rparr>)" for atts le st0
    by (intro body_aborts assms(3))
  show ?thesis
    unfolding execute_with_retry_def u
    by (simp add: b1 b2 finish_def)
qed

theorem abort_before_second_attempt_witness:
  "\<exists>r. fst (execute_with_retry always_fails create_default None (Some abort_from_second)
             (\<lambda>n. 0) (\<lambda>n. 0) quiet_logger initial_stats) = Inr r
       \<and> result r = ABORTED \<and> length (attempts r) = 1
       \<and> total_attempts (snd (execute_with_retry always_fails create_default None
                                 (Some abort_from_second) (\<lambda>n. 0) (\<lambda>n. 0) quiet_logger
                                 initial_stats))
           = total_attempts initial_stats + 1"
proof -
  have 1: "2 \<le> max_attempts create_default" by (simp add: create_default_def)
  have 2: "abort_from_second 1 = Inr False" by (simp add: abort_from_second_def)
  have 3: "abort_from_second 2 = Inr True" by (simp add: abort_from_second_def)
  have 4: "timeout create_default = None \<or> timeout create_default = Some 0
           \<or> (\<exists>t. timeout create_default = Some t \<and> (\<lambda>n. 0) (1::int) < t)"
    by (simp add: create_default_def)
  have 5: "always_fails 1 = Inl (Exn OtherException ''boom'')" by (simp add: always_fails_def)
  have 6: "is_Exception (Exn OtherException ''boom'')" by (simp add: is_Exception_def)
  have 7: "quiet_logger Warning_failed 1 = None" by (simp add: quiet_logger_def)
  have 8: "should_retry 1 create_default (Exn OtherException ''boom'') None = Inr True"
    by (simp add: should_retry_def create_default_def)
  show ?thesis
    using abort_before_second_attempt[where c = create_default and ac = abort_from_second
        and el = "\<lambda>n. 0" and operation = always_fails
        and e = "Exn OtherException ''boom''" and ec = None and rnd = "\<lambda>n. 0"
        and lg = quiet_logger and st = initial_stats] 1 2 3 4 5 6 7 8
    by blast
qed

subsection \<open>The synchronous variant\<close>

lemma attempt_body_sync_eq:
  "attempt_body operation c ec None el rnd lg n atts le st
     = attempt_body_sync operation c ec el rnd lg n atts le st"
  by (simp add: attempt_body_def attempt_body_sync_def)

lemma retry_loop_sync_eq:
  "retry_loop operation c ec None el rnd lg ns atts le st
     = retry_loop_sync operation c ec el rnd lg ns atts le st"
  by (induction ns arbitrary: atts le st)
     (simp_all add: attempt_body_sync_eq split: prod.splits step.splits)



subsection \<open>A zero timeout\<close>

lemma after_failure_no_return:
  "after_failure lg c ec n atts' e st \<noteq> (Return r, st')"
  by (auto simp: after_failure_def split: sum.splits bool.splits if_splits option.splits)

lemma run_attempt_no_timeout:
  assumes "run_attempt operation lg c ec n atts a st = (Return r, st')"
  shows "result r \<noteq> TIMEOUT"
  using assms after_failure_no_return[of lg c ec n _ _ _ r st']
  by (auto simp: run_attempt_def Let_def split: sum.splits if_splits option.splits)

lemma body_no_timeout:
  assumes "timeout c = Some 0"
    and "attempt_body operation c ec ac el rnd lg n atts le st = (Return r, st')"
  shows "result r \<noteq> TIMEOUT"
proof (cases "case ac of None \<Rightarrow> Inr False | Some f \<Rightarrow> f n")
  case (Inl e)
  with assms(2) show ?thesis by (simp add: attempt_body_def)
next
  case (Inr b)
  note ab = this
  show ?thesis
  proof (cases b)
    case True
    with ab assms(2) show ?thesis by (auto simp: attempt_body_def)
  next
    case False
    note nb = this
    show ?thesis
    proof (cases "if n > 1 then calculate_delay (n - 1) c le (rnd n) else Inr 0")
      case (Inl e)
      with ab nb assms show ?thesis by (simp add: attempt_body_def)
    next
      case (Inr d)
      note dl = this
      show ?thesis
      proof (cases "if n > 1 \<and> d > 0 then lg Debug_wait n else None")
        case (Some e)
        with ab nb dl assms show ?thesis by (simp add: attempt_body_def)
      next
        case None
        with ab nb dl assms
        have "run_attempt operation lg c ec n atts
                \<lparr>attempt_number = n, success = False, error = None, delay_before = d\<rparr> st
              = (Return r, st')"
          by (simp add: attempt_body_def)
        then show ?thesis by (rule run_attempt_no_timeout)
      qed
    qed
  qed
qed

lemma loop_no_timeout:
  assumes "timeout c = Some 0"
    and "retry_loop operation c ec ac el rnd lg ns atts le st = (Return r, st')"
  shows "result r \<noteq> TIMEOUT"
  using assms
proof (induction ns arbitrary: atts le st)
  case Nil
  then show ?case by simp
next
  case (Cons n ns)
  obtain s1 st1 where b: "attempt_body operation c ec ac el rnd lg n atts le st = (s1, st1)"
    by (cases "attempt_body operation c ec ac el rnd lg n atts le st") auto
  show ?case
  proof (cases s1)
    case (Continue as l)
    with b Cons.prems(2)
    have "retry_loop operation c ec ac el rnd lg ns as l st1 = (Return r, st')"
      by simp
    from Cons.IH[OF Cons.prems(1) this] show ?thesis .
  next
    case (Return r')
    with b Cons.prems(2) have "r' = r" by simp
    with b Return body_no_timeout[OF Cons.prems(1)] show ?thesis by blast
  qed (use b Cons.prems(2) in auto)
qed

lemma finish_no_timeout:
  assumes "fst (finish c (s, st1)) = Inr r"
    and "\<And>r'. s = Return r' \<Longrightarrow> result r' \<noteq> TIMEOUT"
  shows "result r \<noteq> TIMEOUT"
  using assms by (cases s) (auto simp: finish_def split: if_splits)

lemma async_no_timeout:
  assumes "timeout c = Some 0"
    and "fst (execute_with_retry operation c ec ac el rnd lg st) = Inr r"
  shows "result r \<noteq> TIMEOUT"
proof -
  obtain s st1 where l:
    "retry_loop operation c ec ac el rnd lg [1 .. max_attempts c] [] None
       (st\<lparr>total_executions := total_executions st + 1\<rparr>) = (s, st1)"
    by (cases "retry_loop operation c ec ac el rnd lg [1 .. max_attempts c] [] None
          (st\<lparr>total_executions := total_executions st + 1\<rparr>)") auto
  have f: "fst (finish c (s, st1)) = Inr r"
    using assms(2) l by (simp add: execute_with_retry_def)
  show ?thesis
    by (rule finish_no_timeout[OF f]) (use l loop_no_timeout assms(1) in blast)
qed

lemma flaky_run_zero_timeout:
  "fst (execute_with_retry flaky (create_default\<lparr>timeout := Some 0\<rparr>) None None
          (\<lambda>n. 100) (\<lambda>n. 0) quiet_logger initial_stats) =
     Inr \<lparr>result = SUCCESS, result_value = Some 42,
          attempts =
            [\<lparr>attempt_number = 1, success = False, error = Some ''boom'', delay_before = 0\<rparr>,
             \<lparr>attempt_number = 2, success = False, error = Some ''boom'', delay_before = 1\<rparr>,
             \<lparr>attempt_number = 3, success = True, error = None, delay_before = 2\<rparr>],
          final_error = None, configuration = Some (create_default\<lparr>timeout := Some 0\<rparr>)\<rparr>"
  by (simp add: execute_with_retry_def create_default_def initial_stats_def flaky_def
      quiet_logger_def upto_rec1 attempt_body_def run_attempt_def after_failure_def
      finish_def calculate_delay_def float_pow_small should_retry_def
      is_Exception_def Let_def)

text \<open>
  C10. For every operation and every configuration whose \<open>timeout\<close> is 0, neither
  \<^verbatim>\<open>execute_with_retry\<close> nor \<^verbatim>\<open>execute_with_retry_sync\<close> returns a TIMEOUT result,
  whatever the clock reads: the comparison with the elapsed time is made only when
  \<^verbatim>\<open>config.timeout\<close> is truthy.
\<close>

theorem zero_timeout_never_times_out:
  assumes "timeout c = Some 0"
  shows "(fst (execute_with_retry operation c ec ac el rnd lg st) = Inr r
            \<longrightarrow> result r \<noteq> TIMEOUT)
       \<and> (fst (execute_with_retry_sync operation c ec el rnd lg st) = Inr r'
            \<longrightarrow> result r' \<noteq> TIMEOUT)"
proof -
  have "execute_with_retry_sync operation c ec el rnd lg st
          = execute_with_retry operation c ec None el rnd lg st"
    by (simp add: execute_with_retry_def execute_with_retry_sync_def retry_loop_sync_eq)
  then show ?thesis
    using async_no_timeout[OF assms, of operation ec ac el rnd lg st r]
      async_no_timeout[OF assms, of operation ec None el rnd lg st r']
    by simp
qed

theorem zero_timeout_never_times_out_witness:
  "timeout (create_default\<lparr>timeout := Some 0\<rparr>) = Some 0
   \<and> result (projr (fst (execute_with_retry flaky (create_default\<lparr>timeout := Some 0\<rparr>)
                           None None (\<lambda>n. 100) (\<lambda>n. 0) quiet_logger initial_stats)))
       \<noteq> TIMEOUT
   \<and> result (projr (fst (execute_with_retry_sync flaky (create_default\<lparr>timeout := Some 0\<rparr>)
                           None (\<lambda>n. 100) (\<lambda>n. 0) quiet_logger initial_stats)))
       \<noteq> TIMEOUT"
proof -
  let ?c = "create_default\<lparr>timeout := Some 0\<rparr>"
  let ?a = "fst (execute_with_retry flaky ?c None None (\<lambda>n. 100) (\<lambda>n. 0) quiet_logger
                  initial_stats)"
  let ?s = "fst (execute_with_retry_sync flaky ?c None (\<lambda>n. 100) (\<lambda>n. 0) quiet_logger
                  initial_stats)"
  have t: "timeout ?c = Some 0" by simp
  have a: "?a = Inr (projr ?a)" by (simp add: flaky_run_zero_timeout)
  have "?s = ?a"
    by (simp add: execute_with_retry_def execute_with_retry_sync_def retry_loop_sync_eq)
  with a have s: "?s = Inr (projr ?s)" by simp
  from zero_timeout_never_times_out[OF t, where operation = flaky and ec = None
         and ac = None and el = "\<lambda>n. 100" and rnd = "\<lambda>n. 0" and lg = quiet_logger
         and st = initial_stats and r = "projr ?a" and r' = "projr ?s"] a s t
  show ?thesis by blast
qed

section \<open>Properties of ProcessTerminator\<close>

lemma outer_except_Inl: "outer_except e = Inl e' \<Longrightarrow> \<not> is_Exception e'"
  by (auto simp: outer_except_def split: if_splits)

lemma terminate_gracefully_Inl:
  "fst (terminate_gracefully p) = Inl e \<Longrightarrow> \<not> is_Exception e"
  by (auto simp: terminate_gracefully_def split: if_splits option.splits
      dest: outer_except_Inl)




section \<open>Properties of AsyncProcessEngine\<close>






end
